theory Spec2Isabelle
  imports Main "HOL-Library.Sublist"
begin

section \<open>Results component: \<open>frontend/app/components/ResultsList.tsx\<close>\<close>

subsection \<open>Data model\<close>

text \<open>
  The two interfaces of the results component. The field \<open>id\<close> of a posting is named
  \<open>job_id\<close> here, since \<open>id\<close> is the identity function of HOL. A \<open>match_score\<close> is a
  JavaScript number that the producing service fills with an integer.
\<close>

record JobPosting =
  job_id :: string
  title :: string
  location :: string
  description :: string
  apply_url :: string
  source :: string

record MatchResult =
  job :: JobPosting
  match_score :: int
  why_matches :: "string list"
  gaps :: "string list"

subsection \<open>What a render produces\<close>

text \<open>
  A render is modelled by the data that reaches the screen: for the score badge its
  colour class and the number shown, for a card the fields of the markup that depend on
  the props. The list component returns its heading count and two sections of \<open>JobCard\<close>
  elements; an element is the record of the props it was created with (\<open>key\<close>,
  \<open>result\<close>, \<open>rank\<close>), and the card function renders it.
\<close>

record score_badge =
  colorClass :: string
  shown_score :: int

record job_card =
  highlighted :: bool
  rank_badge :: "nat option"
  shown_title :: string
  shown_location :: string
  shown_source :: string
  badge :: score_badge
  shown_why :: "string list"
  gaps_section :: "string list option"
  apply_href :: string

record JobCard_props =
  props_key :: string
  props_result :: MatchResult
  props_rank :: nat

datatype results_list =
    NoMatchingJobs
  | Matches nat "JobCard_props list" "JobCard_props list option"

subsection \<open>\<open>ScoreBadge\<close>\<close>

definition ScoreBadge :: "int \<Rightarrow> score_badge" where
  "ScoreBadge score =
     (let colorClass0 = ''bg-yellow-100 text-yellow-800'';
          colorClass1 =
            (if score \<ge> 80 then ''bg-green-100 text-green-800''
             else if score \<ge> 60 then ''bg-blue-100 text-blue-800''
             else if score < 40 then ''bg-red-100 text-red-800''
             else colorClass0)
      in \<lparr>colorClass = colorClass1, shown_score = score\<rparr>)"

subsection \<open>\<open>JobCard\<close>\<close>

text \<open>
  \<open>a || b\<close> on strings: the empty string is falsy. The gaps section is guarded by
  \<open>result.gaps.length > 0 && result.gaps[0] !== "No significant gaps identified"\<close>;
  \<open>gaps[0]\<close> is only read when the list is not empty.
\<close>

definition or_else :: "string \<Rightarrow> string \<Rightarrow> string" where
  "or_else a b = (if a = [] then b else a)"

definition JobCard :: "MatchResult \<Rightarrow> nat \<Rightarrow> job_card" where
  "JobCard result rank =
     (let isTopThree = (rank \<le> 3) in
      \<lparr>highlighted = isTopThree,
       rank_badge = (if isTopThree then Some rank else None),
       shown_title = title (job result),
       shown_location = or_else (location (job result)) ''Location not specified'',
       shown_source = source (job result),
       badge = ScoreBadge (match_score result),
       shown_why = why_matches result,
       gaps_section =
         (if length (gaps result) > 0 \<and> gaps result ! 0 \<noteq> ''No significant gaps identified''
          then Some (gaps result) else None),
       apply_href = apply_url (job result)\<rparr>)"

subsection \<open>\<open>ResultsList\<close>\<close>

text \<open>
  \<open>xs.slice(0, 3)\<close> is \<open>take 3 xs\<close>, \<open>xs.slice(3)\<close> is \<open>drop 3 xs\<close>, and
  \<open>xs.map((result, index) => f(result, index))\<close> maps over the elements paired with their
  positions, counted from 0.
\<close>

definition map_indexed :: "('a \<Rightarrow> nat \<Rightarrow> 'b) \<Rightarrow> 'a list \<Rightarrow> 'b list" where
  "map_indexed f xs = map (\<lambda>(index, x). f x index) (enumerate 0 xs)"

definition ResultsList :: "MatchResult list \<Rightarrow> results_list" where
  "ResultsList results =
     (if length results = 0 then NoMatchingJobs
      else Matches (length results)
             (map_indexed
                (\<lambda>result index.
                   \<lparr>props_key = job_id (job result), props_result = result,
                    props_rank = index + 1\<rparr>)
                (take 3 results))
             (if length results > 3
              then Some (map_indexed
                           (\<lambda>result index.
                              \<lparr>props_key = job_id (job result), props_result = result,
                               props_rank = index + 4\<rparr>)
                           (drop 3 results))
              else None))"

text \<open>Rendering an element is calling the card function on its props.\<close>

definition render_element :: "JobCard_props \<Rightarrow> job_card" where
  "render_element props = JobCard (props_result props) (props_rank props)"

section \<open>Values that come from the platform\<close>

text \<open>
  \<open>JSON.parse\<close> and \<open>response.json()\<close> hand the code a value of any shape, whatever the
  TypeScript annotation says. Such a value is a \<open>json\<close>; an object is the list of its
  own properties, each key once. Numbers are modelled by integers: no property here
  depends on more than whether a number is zero.
\<close>

datatype json =
    JNull
  | JBool bool
  | JNum int
  | JStr string
  | JArr "json list"
  | JObj "(string \<times> json) list"

text \<open>
  What a \<open>throw\<close> or a rejected promise carries: an \<open>Error\<close> object (of any subclass)
  with its message, or a value that is not an \<open>Error\<close>, such as the event a
  \<open>FileReader\<close> passes to \<open>onerror\<close>.
\<close>

datatype thrown = Error string | NotAnError

text \<open>
  Reading a property \<open>v.key\<close> of a value other than \<open>null\<close>; \<open>None\<close> is
  \<open>undefined\<close>. Arrays and strings have a \<open>length\<close>; the keys read by the code
  (\<open>detail\<close>, \<open>message\<close>, \<open>results\<close>, \<open>length\<close>) name no other built-in property.
\<close>

fun property :: "json \<Rightarrow> string \<Rightarrow> json option" where
  "property (JObj kvs) key = map_of kvs key"
| "property (JArr xs) key = (if key = ''length'' then Some (JNum (int (length xs))) else None)"
| "property (JStr s) key = (if key = ''length'' then Some (JNum (int (length s))) else None)"
| "property _ key = None"

text \<open>Truthiness of a value that may be \<open>undefined\<close>.\<close>

fun truthy :: "json option \<Rightarrow> bool" where
  "truthy None = False"
| "truthy (Some JNull) = False"
| "truthy (Some (JBool b)) = b"
| "truthy (Some (JNum n)) = (n \<noteq> 0)"
| "truthy (Some (JStr s)) = (s \<noteq> [])"
| "truthy (Some (JArr _)) = True"
| "truthy (Some (JObj _)) = True"

section \<open>Submission component: \<open>frontend/app/components/UploadForm.tsx\<close>\<close>

subsection \<open>State\<close>

text \<open>
  A \<open>File\<close> has a name, a declared content type (\<open>file.type\<close>) and a content. The
  fields of \<open>FormErrors\<close> carry the suffix \<open>_error\<close>, since two of them share their
  names with fields of \<open>FormData\<close>; an absent key and a key set to \<open>undefined\<close> are both
  \<open>None\<close>.
\<close>

record File =
  file_name :: string
  file_type :: string
  file_content :: string

record FormData =
  resumeText :: string
  resumeFile :: "File option"
  desiredJobDescription :: string
  companyJobsUrl :: string

record FormErrors =
  resume_error :: "string option"
  desiredJobDescription_error :: "string option"
  companyJobsUrl_error :: "string option"
  submit_error :: "string option"

datatype input_mode = paste | upload

record form_state =
  formData :: FormData
  errors :: FormErrors
  isLoading :: bool
  inputMode :: input_mode

definition no_errors :: FormErrors where
  "no_errors = \<lparr>resume_error = None, desiredJobDescription_error = None,
                 companyJobsUrl_error = None, submit_error = None\<rparr>"

definition initial_state :: form_state where
  "initial_state =
     \<lparr>formData = \<lparr>resumeText = [], resumeFile = None,
                   desiredJobDescription = [], companyJobsUrl = []\<rparr>,
      errors = no_errors,
      isLoading = False,
      inputMode = paste\<rparr>"

subsection \<open>The platform the form runs on\<close>

text \<open>
  \<open>new URL(s)\<close> either throws or gives a URL, of which the code reads the \<open>hostname\<close>.
  The parser is the browser's, so it is a parameter \<open>parseURL\<close> of the model, \<open>None\<close>
  when it throws.
\<close>

record URL =
  hostname :: string

type_synonym url_parser = "string \<Rightarrow> URL option"

text \<open>
  The request body is a \<open>Record<string, string>\<close> with two keys always present and
  one of two more; a key that is absent (or \<open>undefined\<close>, which \<open>JSON.stringify\<close> drops)
  is \<open>None\<close>.
\<close>

record RequestBody =
  desired_job_description :: string
  company_jobs_url :: string
  resume_file_base64 :: "string option"
  resume_text :: "string option"

text \<open>
  Of a response the code reads \<open>ok\<close> and, once, \<open>json()\<close>, which resolves to a value or
  rejects.
\<close>

record Response =
  ok :: bool
  json_body :: "thrown + json"

text \<open>
  The rest of the platform: \<open>readAsDataURL\<close> is the \<open>FileReader\<close> run to its \<open>onload\<close>
  (the data URL) or its \<open>onerror\<close>; \<open>fetch\<close> is the call of \<open>/api/recommend\<close> with the
  given body, resolved or rejected; \<open>ToString\<close> is the conversion \<open>new Error(v)\<close> applies
  to a message that is not a string; \<open>nullPropertyMessage key\<close> is the message of the
  \<open>TypeError\<close> raised by reading \<open>key\<close> of \<open>null\<close>.
\<close>

record platform =
  readAsDataURL :: "File \<Rightarrow> thrown + string"
  fetch :: "RequestBody \<Rightarrow> thrown + Response"
  ToString :: "json \<Rightarrow> string"
  nullPropertyMessage :: "string \<Rightarrow> string"

subsection \<open>String helpers of JavaScript\<close>

text \<open>
  \<open>s.trim()\<close> removes white space and line terminators from both ends. Characters are
  8-bit here, so of the code points \<open>trim\<close> removes those up to U+00FF are modelled:
  tab, line feed, vertical tab, form feed, carriage return, space, no-break space.
\<close>

definition is_whitespace :: "char \<Rightarrow> bool" where
  "is_whitespace c = (of_char c \<in> {9, 10, 11, 12, 13, 32, 160 :: nat})"

definition trim :: "string \<Rightarrow> string" where
  "trim s = rev (dropWhile is_whitespace (rev (dropWhile is_whitespace s)))"

text \<open>\<open>s.includes(t)\<close>: \<open>t\<close> occurs in \<open>s\<close> as a contiguous run.\<close>

definition includes_str :: "string \<Rightarrow> string \<Rightarrow> bool" where
  "includes_str s searchString = sublist searchString s"

text \<open>\<open>s.split(",")\<close>, and \<open>xs[i]\<close> with \<open>undefined\<close> out of range.\<close>

fun split_on :: "char \<Rightarrow> string \<Rightarrow> string list" where
  "split_on sep [] = [[]]"
| "split_on sep (c # cs) =
     (if c = sep then [] # split_on sep cs
      else (case split_on sep cs of
              [] \<Rightarrow> [[c]]
            | part # parts \<Rightarrow> (c # part) # parts))"

definition at_index :: "'a list \<Rightarrow> nat \<Rightarrow> 'a option" where
  "at_index xs i = (if i < length xs then Some (xs ! i) else None)"

subsection \<open>\<open>handleFileChange\<close> and the two mode buttons\<close>

definition validTypes :: "string list" where
  "validTypes =
     [''application/pdf'',
      ''application/vnd.openxmlformats-officedocument.wordprocessingml.document'']"

text \<open>The argument is \<open>e.target.files?.[0]\<close>: the first selected file, if any.\<close>

definition handleFileChange :: "File option \<Rightarrow> form_state \<Rightarrow> form_state" where
  "handleFileChange selected st =
     (case selected of
        None \<Rightarrow> st
      | Some file \<Rightarrow>
          if file_type file \<notin> set validTypes
          then st\<lparr>errors := (errors st)\<lparr>resume_error := Some ''Please upload a PDF or DOCX file''\<rparr>\<rparr>
          else st\<lparr>formData := (formData st)\<lparr>resumeFile := Some file, resumeText := []\<rparr>,
                  errors := (errors st)\<lparr>resume_error := None\<rparr>\<rparr>)"

definition clickPasteText :: "form_state \<Rightarrow> form_state" where
  "clickPasteText st =
     st\<lparr>inputMode := paste, formData := (formData st)\<lparr>resumeFile := None\<rparr>\<rparr>"

definition clickUploadFile :: "form_state \<Rightarrow> form_state" where
  "clickUploadFile st =
     st\<lparr>inputMode := upload, formData := (formData st)\<lparr>resumeText := []\<rparr>\<rparr>"

text \<open>The \<open>onChange\<close> handlers of the three text inputs.\<close>

definition changeResumeText :: "string \<Rightarrow> form_state \<Rightarrow> form_state" where
  "changeResumeText v st = st\<lparr>formData := (formData st)\<lparr>resumeText := v\<rparr>\<rparr>"

definition changeDesiredJobDescription :: "string \<Rightarrow> form_state \<Rightarrow> form_state" where
  "changeDesiredJobDescription v st = st\<lparr>formData := (formData st)\<lparr>desiredJobDescription := v\<rparr>\<rparr>"

definition changeCompanyJobsUrl :: "string \<Rightarrow> form_state \<Rightarrow> form_state" where
  "changeCompanyJobsUrl v st = st\<lparr>formData := (formData st)\<lparr>companyJobsUrl := v\<rparr>\<rparr>"

subsection \<open>\<open>validateForm\<close>\<close>

text \<open>
  The three checks fill \<open>newErrors\<close> one after the other; the result is the state with
  \<open>errors\<close> replaced by \<open>newErrors\<close>, and whether \<open>newErrors\<close> has no key.
\<close>

definition isSupported :: "URL \<Rightarrow> bool" where
  "isSupported url =
     (includes_str (hostname url) ''greenhouse.io''
      \<or> includes_str (hostname url) ''lever.co''
      \<or> includes_str (hostname url) ''myworkdayjobs.com'')"

definition check_resume :: "FormData \<Rightarrow> string option" where
  "check_resume fd =
     (if resumeText fd = [] \<and> resumeFile fd = None
      then Some ''Please paste your resume or upload a file'' else None)"

definition check_desiredJobDescription :: "FormData \<Rightarrow> string option" where
  "check_desiredJobDescription fd =
     (if trim (desiredJobDescription fd) = []
      then Some ''Please describe your desired job'' else None)"

definition check_companyJobsUrl :: "url_parser \<Rightarrow> FormData \<Rightarrow> string option" where
  "check_companyJobsUrl parseURL fd =
     (if trim (companyJobsUrl fd) = [] then Some ''Please enter a company jobs URL''
      else (case parseURL (companyJobsUrl fd) of
              Some url \<Rightarrow>
                if \<not> isSupported url
                then Some ''Currently only Greenhouse, Lever, and Workday URLs are supported''
                else None
            | None \<Rightarrow> Some ''Please enter a valid URL''))"

definition newErrors :: "url_parser \<Rightarrow> FormData \<Rightarrow> FormErrors" where
  "newErrors parseURL fd =
     \<lparr>resume_error = check_resume fd,
      desiredJobDescription_error = check_desiredJobDescription fd,
      companyJobsUrl_error = check_companyJobsUrl parseURL fd,
      submit_error = None\<rparr>"

definition has_no_keys :: "FormErrors \<Rightarrow> bool" where
  "has_no_keys e =
     (resume_error e = None \<and> desiredJobDescription_error e = None
      \<and> companyJobsUrl_error e = None \<and> submit_error e = None)"

definition validateForm :: "url_parser \<Rightarrow> form_state \<Rightarrow> form_state \<times> bool" where
  "validateForm parseURL st =
     (let e = newErrors parseURL (formData st)
      in (st\<lparr>errors := e\<rparr>, has_no_keys e))"

subsection \<open>\<open>handleSubmit\<close>\<close>

text \<open>
  \<open>fileToBase64\<close>: the part of the data URL after its first comma,
  \<open>result.split(",")[1]\<close>, or the rejection of the reader.
\<close>

definition fileToBase64 :: "platform \<Rightarrow> File \<Rightarrow> thrown + string option" where
  "fileToBase64 pl file =
     (case readAsDataURL pl file of
        Inl e \<Rightarrow> Inl e
      | Inr result \<Rightarrow> Inr (at_index (split_on CHR '','' result) 1))"

definition requestBody :: "platform \<Rightarrow> FormData \<Rightarrow> thrown + RequestBody" where
  "requestBody pl fd =
     (let body = \<lparr>desired_job_description = desiredJobDescription fd,
                  company_jobs_url = companyJobsUrl fd,
                  resume_file_base64 = None,
                  resume_text = None\<rparr>
      in case resumeFile fd of
           Some file \<Rightarrow>
             (case fileToBase64 pl file of
                Inl e \<Rightarrow> Inl e
              | Inr base64 \<Rightarrow> Inr (body\<lparr>resume_file_base64 := base64\<rparr>))
         | None \<Rightarrow> Inr (body\<lparr>resume_text := Some (resumeText fd)\<rparr>))"

text \<open>
  The branch \<open>if (!response.ok)\<close>, given the value \<open>errorData\<close> that \<open>response.json()\<close>
  resolved to: what
  \<open>throw new Error(errorData.detail?.message || "Failed to get recommendations")\<close>
  throws. Reading \<open>detail\<close> of \<open>null\<close> is a \<open>TypeError\<close>; \<open>?.\<close> stops at \<open>undefined\<close>
  and \<open>null\<close>; the message of the new error is the string itself, or the platform's
  conversion of a value that is not a string.
\<close>

definition optional_message :: "json option \<Rightarrow> json option" where
  "optional_message detail =
     (case detail of
        None \<Rightarrow> None
      | Some JNull \<Rightarrow> None
      | Some d \<Rightarrow> property d ''message'')"

definition new_Error :: "platform \<Rightarrow> json \<Rightarrow> thrown" where
  "new_Error pl v = (case v of JStr s \<Rightarrow> Error s | _ \<Rightarrow> Error (ToString pl v))"

definition throw_for_errorData :: "platform \<Rightarrow> json \<Rightarrow> thrown" where
  "throw_for_errorData pl errorData =
     (if errorData = JNull then Error (nullPropertyMessage pl ''detail'')
      else (let message = optional_message (property errorData ''detail'')
            in if truthy message then new_Error pl (the message)
               else Error ''Failed to get recommendations''))"

text \<open>
  The effects of one run of the handler besides the state: the body handed to \<open>fetch\<close>
  (if \<open>fetch\<close> was called), the value \<open>data.results\<close> whose serialisation was written to
  the session storage slot \<open>jobResults\<close> (\<open>Some None\<close> when it was \<open>undefined\<close>), and
  whether \<open>router.push("/results")\<close> ran. Writing the slot and navigating are taken not
  to throw.
\<close>

record effects =
  sent :: "RequestBody option"
  persisted :: "json option option"
  navigated :: bool

definition no_effects :: effects where
  "no_effects = \<lparr>sent = None, persisted = None, navigated = False\<rparr>"

text \<open>
  The \<open>try\<close> block after a response arrived: \<open>Inl\<close> what it throws, \<open>Inr\<close> the value of
  \<open>data.results\<close> that is stored before navigating.
\<close>

definition handleResponse :: "platform \<Rightarrow> Response \<Rightarrow> thrown + json option" where
  "handleResponse pl response =
     (if \<not> ok response then
        (case json_body response of
           Inl e \<Rightarrow> Inl e
         | Inr errorData \<Rightarrow> Inl (throw_for_errorData pl errorData))
      else
        (case json_body response of
           Inl e \<Rightarrow> Inl e
         | Inr data \<Rightarrow>
             if data = JNull then Inl (Error (nullPropertyMessage pl ''results''))
             else Inr (property data ''results'')))"

text \<open>The \<open>try\<close> block as a whole: its effects, and what it throws if it throws.\<close>

definition try_block :: "platform \<Rightarrow> FormData \<Rightarrow> effects \<times> thrown option" where
  "try_block pl fd =
     (case requestBody pl fd of
        Inl e \<Rightarrow> (no_effects, Some e)
      | Inr body \<Rightarrow>
          (case fetch pl body of
             Inl e \<Rightarrow> (no_effects\<lparr>sent := Some body\<rparr>, Some e)
           | Inr response \<Rightarrow>
               (case handleResponse pl response of
                  Inl e \<Rightarrow> (no_effects\<lparr>sent := Some body\<rparr>, Some e)
                | Inr results \<Rightarrow>
                    (\<lparr>sent = Some body, persisted = Some results, navigated = True\<rparr>, None))))"

text \<open>The \<open>catch\<close> clause: the message put under \<open>submit\<close>.\<close>

definition catch_message :: "thrown \<Rightarrow> string" where
  "catch_message error =
     (case error of
        Error message \<Rightarrow> message
      | NotAnError \<Rightarrow> ''An error occurred. Please try again.'')"

text \<open>
  The handler from the click to the end of its \<open>finally\<close>. The state a handler reads is
  the one of the render it was created in, so \<open>formData\<close> is read once.
\<close>

definition handleSubmit :: "platform \<Rightarrow> url_parser \<Rightarrow> form_state \<Rightarrow> form_state \<times> effects" where
  "handleSubmit pl parseURL st =
     (let (st1, valid) = validateForm parseURL st in
      if \<not> valid then (st1, no_effects)
      else
        (let st2 = st1\<lparr>isLoading := True, errors := no_errors\<rparr>;
             (eff, failure) = try_block pl (formData st);
             st3 = (case failure of
                      None \<Rightarrow> st2
                    | Some error \<Rightarrow>
                        st2\<lparr>errors := no_errors\<lparr>submit_error := Some (catch_message error)\<rparr>\<rparr>)
         in (st3\<lparr>isLoading := False\<rparr>, eff)))"

text \<open>
  The box above the submit button, \<open>{errors.submit && (...)}\<close>: it is rendered with the
  message when \<open>errors.submit\<close> is a string that is not empty.
\<close>

definition submit_error_box :: "form_state \<Rightarrow> string option" where
  "submit_error_box st =
     (case submit_error (errors st) of
        None \<Rightarrow> None
      | Some message \<Rightarrow> if message = [] then None else Some message)"

subsection \<open>The form as a transition system\<close>

text \<open>
  The events a user can raise, and which of them the current render offers: the resume
  text area is mounted only in paste mode and the file input only in upload mode; the
  submit button is disabled while loading. A submission is taken as one step, from the
  click to the end of the handler.
\<close>

datatype event =
    ClickPasteText
  | ClickUploadFile
  | ChangeResumeText string
  | ChangeFile "File option"
  | ChangeDesiredJobDescription string
  | ChangeCompanyJobsUrl string
  | Submit platform url_parser

fun offered :: "form_state \<Rightarrow> event \<Rightarrow> bool" where
  "offered st (ChangeResumeText v) = (inputMode st = paste)"
| "offered st (ChangeFile selected) = (inputMode st = upload)"
| "offered st (Submit pl parseURL) = (\<not> isLoading st)"
| "offered st _ = True"

fun handle :: "event \<Rightarrow> form_state \<Rightarrow> form_state" where
  "handle ClickPasteText st = clickPasteText st"
| "handle ClickUploadFile st = clickUploadFile st"
| "handle (ChangeResumeText v) st = changeResumeText v st"
| "handle (ChangeFile selected) st = handleFileChange selected st"
| "handle (ChangeDesiredJobDescription v) st = changeDesiredJobDescription v st"
| "handle (ChangeCompanyJobsUrl v) st = changeCompanyJobsUrl v st"
| "handle (Submit pl parseURL) st = fst (handleSubmit pl parseURL st)"

inductive reachable :: "form_state \<Rightarrow> bool" where
  initial: "reachable initial_state"
| step: "reachable st \<Longrightarrow> offered st ev \<Longrightarrow> reachable (handle ev st)"

text \<open>Running a list of events from a state; an event that is not offered does nothing.\<close>

fun run :: "event list \<Rightarrow> form_state \<Rightarrow> form_state" where
  "run [] st = st"
| "run (ev # evs) st = run evs (if offered st ev then handle ev st else st)"

text \<open>A field of the resume is supplied when it passes the truthiness test of the code.\<close>

definition text_supplied :: "FormData \<Rightarrow> bool" where
  "text_supplied fd = (resumeText fd \<noteq> [])"

definition file_supplied :: "FormData \<Rightarrow> bool" where
  "file_supplied fd = (resumeFile fd \<noteq> None)"

section \<open>Results page: \<open>frontend/app/results/page.tsx\<close>\<close>

text \<open>
  The effect run on mount reads the slot \<open>jobResults\<close> (\<open>None\<close> when \<open>getItem\<close> gives
  \<open>null\<close>) and hands \<open>setResults\<close> either the empty array or whatever \<open>JSON.parse\<close>
  returned; \<open>if (stored)\<close> is false for \<open>null\<close> and for the empty string. \<open>JSON.parse\<close>
  is the platform's and a parameter, \<open>None\<close> when it throws.
\<close>

type_synonym json_parser = "string \<Rightarrow> json option"

definition loadResults :: "json_parser \<Rightarrow> string option \<Rightarrow> json" where
  "loadResults JSON_parse stored =
     (let parsedResults = JArr [] in
      case stored of
        None \<Rightarrow> parsedResults
      | Some text \<Rightarrow>
          if text = [] then parsedResults
          else (case JSON_parse text of
                  None \<Rightarrow> parsedResults
                | Some v \<Rightarrow> v))"

text \<open>
  The render once loading is over, on the value held in \<open>results\<close>. The model follows
  the two component functions \<open>ResultsPage\<close> and \<open>ResultsList\<close> to what they return or
  throw; an exception raised while rendering is a failure of the page.
  \<open>results.length === 0\<close> throws on \<open>null\<close> and is true only for the number 0.
  \<open>results.slice(0, 3).map(...)\<close> succeeds on arrays only: a string has \<open>slice\<close> but its
  result has no \<open>map\<close>, and no other value parsed from JSON holds a function. On an
  array the list component creates one \<open>JobCard\<close> element per entry and reads
  \<open>result.job.id\<close> for its key, which throws when the entry is \<open>null\<close> or its \<open>job\<close> is
  \<open>null\<close> or \<open>undefined\<close>; the first three entries are handled before the others.
\<close>

datatype render_error = TypeError | InvalidChild

record JobCard_element =
  element_key :: "json option"
  element_result :: json
  element_rank :: nat

datatype results_page =
    NoResultsFound
  | EmptyList
  | ListOf "JobCard_element list" "JobCard_element list option"

definition length_is_zero :: "json \<Rightarrow> render_error + bool" where
  "length_is_zero results =
     (if results = JNull then Inl TypeError
      else Inr (property results ''length'' = Some (JNum 0)))"

text \<open>\<open>v.key\<close> on a value that may be \<open>undefined\<close> or \<open>null\<close>.\<close>

definition member :: "json option \<Rightarrow> string \<Rightarrow> render_error + json option" where
  "member v key =
     (case v of
        None \<Rightarrow> Inl TypeError
      | Some JNull \<Rightarrow> Inl TypeError
      | Some x \<Rightarrow> Inr (property x key))"

definition JobCard_element_for :: "nat \<Rightarrow> json \<Rightarrow> nat \<Rightarrow> render_error + JobCard_element" where
  "JobCard_element_for first result index =
     (case member (Some result) ''job'' of
        Inl e \<Rightarrow> Inl e
      | Inr job_value \<Rightarrow>
          (case member job_value ''id'' of
             Inl e \<Rightarrow> Inl e
           | Inr key \<Rightarrow>
               Inr \<lparr>element_key = key, element_result = result,
                    element_rank = index + first\<rparr>))"

text \<open>A \<open>map\<close> whose callback may throw stops at the first exception.\<close>

fun until_error :: "('e + 'a) list \<Rightarrow> 'e + 'a list" where
  "until_error [] = Inr []"
| "until_error (Inl e # rs) = Inl e"
| "until_error (Inr x # rs) =
     (case until_error rs of Inl e \<Rightarrow> Inl e | Inr xs \<Rightarrow> Inr (x # xs))"

definition ResultsList_untyped :: "json \<Rightarrow> render_error + results_page" where
  "ResultsList_untyped results =
     (case length_is_zero results of
        Inl e \<Rightarrow> Inl e
      | Inr True \<Rightarrow> Inr EmptyList
      | Inr False \<Rightarrow>
          (case results of
             JArr xs \<Rightarrow>
               (case until_error (map_indexed (JobCard_element_for 1) (take 3 xs)) of
                  Inl e \<Rightarrow> Inl e
                | Inr top3 \<Rightarrow>
                    if length xs > 3
                    then (case until_error (map_indexed (JobCard_element_for 4) (drop 3 xs)) of
                            Inl e \<Rightarrow> Inl e
                          | Inr others \<Rightarrow> Inr (ListOf top3 (Some others)))
                    else Inr (ListOf top3 None))
           | _ \<Rightarrow> Inl TypeError))"

definition ResultsPage_render :: "json \<Rightarrow> render_error + results_page" where
  "ResultsPage_render results =
     (case length_is_zero results of
        Inl e \<Rightarrow> Inl e
      | Inr True \<Rightarrow> Inr NoResultsFound
      | Inr False \<Rightarrow> ResultsList_untyped results)"

definition ResultsPage :: "json_parser \<Rightarrow> string option \<Rightarrow> render_error + results_page" where
  "ResultsPage JSON_parse stored = ResultsPage_render (loadResults JSON_parse stored)"

subsection \<open>The card on an entry of any shape\<close>

text \<open>
  What rendering a \<open>JobCard\<close> element does when \<open>result\<close> is any value: \<open>None\<close> when it
  renders, otherwise the exception. The function body reads \<open>result.job.title\<close>,
  \<open>location\<close> and \<open>source\<close>, calls \<open>result.why_matches.map\<close>, which only an array has,
  reads \<open>result.gaps.length\<close> and, when the guard of the gaps section holds, calls
  \<open>result.gaps.map\<close>. In the guard, \<open>length > 0\<close> converts its operand to a number:
  \<open>undefined\<close> and objects give \<open>NaN\<close>, \<open>null\<close> gives 0, \<open>true\<close> gives 1; the conversion
  of a string or an array is the platform's and the parameter \<open>positive\<close>. \<open>gaps[0]\<close>
  is the first element of an array, the first character of a string, the property \<open>0\<close>
  of an object. After the body has returned, React refuses an object among the children
  it is given (title, location, source, score, each reason, each gap); arrays are
  flattened, \<open>null\<close>, \<open>undefined\<close> and booleans render nothing. The wrappers imported
  from \<open>@/components/ui\<close> are taken to pass their children on.
\<close>

fun valid_child :: "json \<Rightarrow> bool" where
  "valid_child (JObj kvs) = False"
| "valid_child (JArr xs) = (\<forall>x \<in> set xs. valid_child x)"
| "valid_child _ = True"

definition greater_than_zero :: "(json \<Rightarrow> bool) \<Rightarrow> json option \<Rightarrow> bool" where
  "greater_than_zero positive v =
     (case v of
        None \<Rightarrow> False
      | Some JNull \<Rightarrow> False
      | Some (JBool b) \<Rightarrow> b
      | Some (JNum n) \<Rightarrow> n > 0
      | Some (JObj kvs) \<Rightarrow> False
      | Some x \<Rightarrow> positive x)"

definition first_item :: "json \<Rightarrow> json option" where
  "first_item v =
     (case v of
        JArr xs \<Rightarrow> at_index xs 0
      | JStr s \<Rightarrow> (case s of [] \<Rightarrow> None | c # cs \<Rightarrow> Some (JStr [c]))
      | JObj kvs \<Rightarrow> map_of kvs ''0''
      | _ \<Rightarrow> None)"

text \<open>
  \<open>defined v\<close> is \<open>v\<close> unless it is \<open>null\<close> or \<open>undefined\<close>, on which a property
  read throws; \<open>array_items v\<close> are the elements of \<open>v\<close> when it is an array, the only
  kind of value on which \<open>map\<close> can be called.
\<close>

definition defined :: "json option \<Rightarrow> json option" where
  "defined v = (case v of Some JNull \<Rightarrow> None | _ \<Rightarrow> v)"

definition array_items :: "json option \<Rightarrow> json list option" where
  "array_items v = (case v of Some (JArr xs) \<Rightarrow> Some xs | _ \<Rightarrow> None)"

definition check_children :: "json option list \<Rightarrow> render_error option" where
  "check_children children =
     (if \<forall>child \<in> set children. (case child of None \<Rightarrow> True | Some c \<Rightarrow> valid_child c)
      then None else Some InvalidChild)"

definition JobCard_untyped :: "(json \<Rightarrow> bool) \<Rightarrow> json \<Rightarrow> render_error option" where
  "JobCard_untyped positive result =
     (case defined (Some result) of
        None \<Rightarrow> Some TypeError
      | Some r \<Rightarrow>
     (case defined (property r ''job'') of
        None \<Rightarrow> Some TypeError
      | Some job_value \<Rightarrow>
     (case array_items (property r ''why_matches'') of
        None \<Rightarrow> Some TypeError
      | Some reasons \<Rightarrow>
     (case defined (property r ''gaps'') of
        None \<Rightarrow> Some TypeError
      | Some gaps_value \<Rightarrow>
          (let location_child =
                 (if truthy (property job_value ''location'')
                  then property job_value ''location''
                  else Some (JStr ''Location not specified''));
               children =
                 [property job_value ''title'', location_child,
                  property job_value ''source'', property r ''match_score'']
                 @ map Some reasons
           in if greater_than_zero positive (property gaps_value ''length'')
                 \<and> first_item gaps_value \<noteq> Some (JStr ''No significant gaps identified'')
              then (case array_items (Some gaps_value) of
                      None \<Rightarrow> Some TypeError
                    | Some gs \<Rightarrow> check_children (children @ map Some gs))
              else check_children children)))))"

text \<open>
  The page with its cards rendered: the elements are rendered in order, and the first
  exception ends the render.
\<close>

fun first_failure :: "(json \<Rightarrow> bool) \<Rightarrow> JobCard_element list \<Rightarrow> render_error option" where
  "first_failure positive [] = None"
| "first_failure positive (el # els) =
     (case JobCard_untyped positive (element_result el) of
        Some e \<Rightarrow> Some e
      | None \<Rightarrow> first_failure positive els)"

definition ResultsPage_with_cards ::
  "(json \<Rightarrow> bool) \<Rightarrow> json_parser \<Rightarrow> string option \<Rightarrow> render_error + results_page" where
  "ResultsPage_with_cards positive JSON_parse stored =
     (case ResultsPage JSON_parse stored of
        Inr (ListOf top3 others) \<Rightarrow>
          (case first_failure positive (top3 @ (case others of None \<Rightarrow> [] | Some els \<Rightarrow> els)) of
             Some e \<Rightarrow> Inl e
           | None \<Rightarrow> Inr (ListOf top3 others))
      | outcome \<Rightarrow> outcome)"

section \<open>Concrete inputs\<close>

text \<open>
  A platform on which every request is answered by the given response; reading a file
  gives a fixed data URL.
\<close>

definition answering :: "Response \<Rightarrow> platform" where
  "answering response =
     \<lparr>readAsDataURL = (\<lambda>file. Inr ''data:application/pdf;base64,JVBERi0=''),
      fetch = (\<lambda>body. Inr response),
      ToString = (\<lambda>v. ''[object Object]''),
      nullPropertyMessage = (\<lambda>key. ''Cannot read properties of null'')\<rparr>"

text \<open>A URL parser that knows one address, and a form filled in for it.\<close>

definition acme_parser :: url_parser where
  "acme_parser =
     map_of [(''https://boards.greenhouse.io/acme'', \<lparr>hostname = ''boards.greenhouse.io''\<rparr>)]"

definition acme_form :: "string \<Rightarrow> form_state" where
  "acme_form text =
     initial_state\<lparr>formData :=
       \<lparr>resumeText = text, resumeFile = None,
        desiredJobDescription = ''data analyst'',
        companyJobsUrl = ''https://boards.greenhouse.io/acme''\<rparr>\<rparr>"

definition sample_pdf :: File where
  "sample_pdf = \<lparr>file_name = ''cv.pdf'', file_type = ''application/pdf'', file_content = ''%PDF''\<rparr>"

definition sample_png :: File where
  "sample_png = \<lparr>file_name = ''cv.png'', file_type = ''image/png'', file_content = ''PNG''\<rparr>"

definition sample_job :: JobPosting where
  "sample_job =
     \<lparr>job_id = ''1'', title = ''Data Analyst'', location = ''Remote'', description = [],
      apply_url = ''https://boards.greenhouse.io/acme/jobs/1'', source = ''greenhouse''\<rparr>"

definition sample_result :: "string list \<Rightarrow> MatchResult" where
  "sample_result gs =
     \<lparr>job = sample_job, match_score = 85, why_matches = [''SQL''], gaps = gs\<rparr>"

section \<open>Properties of the results component\<close>

lemma map_indexed_nth:
  "map_indexed f xs = map (\<lambda>i. f (xs ! i) i) [0..<length xs]"
  by (auto simp: map_indexed_def enumerate_eq_zip intro!: nth_equalityI)

text \<open>
  C4. The colour class of the score badge is determined by four ranges of the score that
  are exhaustive and pairwise disjoint: green (top tier) exactly from 80 up, blue (second
  tier) exactly for 60 to 79, yellow (third tier) exactly for 40 to 59, red (lowest tier)
  exactly below 40. It holds for every integer, so for 0 to 100.
\<close>

theorem ScoreBadge_tiers:
  "(colorClass (ScoreBadge score) = ''bg-green-100 text-green-800'') = (80 \<le> score)
   \<and> (colorClass (ScoreBadge score) = ''bg-blue-100 text-blue-800'') = (60 \<le> score \<and> score < 80)
   \<and> (colorClass (ScoreBadge score) = ''bg-yellow-100 text-yellow-800'') = (40 \<le> score \<and> score < 60)
   \<and> (colorClass (ScoreBadge score) = ''bg-red-100 text-red-800'') = (score < 40)"
  by (simp add: ScoreBadge_def)

text \<open>
  C1, as the claim states it, fails: a gaps list that starts with the sentinel and goes
  on is not shown either, although it differs from the one-element list.
\<close>

theorem gaps_section_counterexample:
  "\<not> ((gaps_section (JobCard (sample_result [''No significant gaps identified'', ''No Tableau'']) 1) = None)
        = (gaps (sample_result [''No significant gaps identified'', ''No Tableau''])
             = [''No significant gaps identified'']))"
  by (simp add: JobCard_def sample_result_def)

text \<open>
  C1, amended. The gaps section of a card is left out exactly when the gaps list is
  empty or its first element is the sentinel \<open>No significant gaps identified\<close>; in
  every other case the section shows the whole list, in order.
\<close>

theorem gaps_section_by_first_element:
  "(gaps_section (JobCard result rank) = None)
     = (gaps result = [] \<or> take 1 (gaps result) = [''No significant gaps identified''])
   \<and> (gaps_section (JobCard result rank) = Some (gaps result))
     = (gaps result \<noteq> [] \<and> take 1 (gaps result) \<noteq> [''No significant gaps identified''])"
  by (cases "gaps result") (simp_all add: JobCard_def Let_def)

lemma map_indexed_drop:
  "map_indexed (\<lambda>x index. f x (index + k)) (drop k xs)
     = map (\<lambda>i. f (xs ! i) i) [k..<length xs]"
proof (rule nth_equalityI)
  show "length (map_indexed (\<lambda>x index. f x (index + k)) (drop k xs))
          = length (map (\<lambda>i. f (xs ! i) i) [k..<length xs])"
    by (simp add: map_indexed_nth)
next
  fix i assume "i < length (map_indexed (\<lambda>x index. f x (index + k)) (drop k xs))"
  then have i: "i < length xs - k" by (simp add: map_indexed_nth)
  then show "map_indexed (\<lambda>x index. f x (index + k)) (drop k xs) ! i
               = map (\<lambda>i. f (xs ! i) i) [k..<length xs] ! i"
    by (simp add: map_indexed_nth add.commute)
qed

lemma map_indexed_take:
  "map_indexed f (take k xs) = map (\<lambda>i. f (xs ! i) i) [0..<min k (length xs)]"
  by (simp add: map_indexed_nth min.commute)

text \<open>
  C9. For a stored list of N entries the list component creates, in stored order, one
  card element per entry, and the element of the entry at index \<open>i\<close> holds that entry
  and the rank \<open>i + 1\<close>: the entries at indices 0 to 2 are in the section of top
  recommendations, the entries from index 3 on in the section of other matches, whose
  ranks so go on from 4. Rendering an element calls the card function on its entry and
  rank, and a card of rank \<open>i + 1\<close> is flagged as top-tier and shows its rank as a badge
  exactly when \<open>i < 3\<close>. (For N = 0 there is no card.)
\<close>

theorem ResultsList_ranks:
  "ResultsList results =
     (if results = [] then NoMatchingJobs
      else Matches (length results)
             (map (\<lambda>i. \<lparr>props_key = job_id (job (results ! i)), props_result = results ! i,
                         props_rank = i + 1\<rparr>)
                [0..<min 3 (length results)])
             (if length results > 3
              then Some (map (\<lambda>i. \<lparr>props_key = job_id (job (results ! i)),
                                     props_result = results ! i, props_rank = i + 1\<rparr>)
                           [3..<length results])
              else None))
   \<and> render_element \<lparr>props_key = k, props_result = result, props_rank = i + 1\<rparr>
       = JobCard result (i + 1)
   \<and> highlighted (JobCard result (i + 1)) = (i < 3)
   \<and> rank_badge (JobCard result (i + 1)) = (if i < 3 then Some (i + 1) else None)"
proof -
  let ?el = "\<lambda>x r. \<lparr>props_key = job_id (job x), props_result = x, props_rank = r\<rparr>"
  have first3: "map_indexed (\<lambda>result index. ?el result (index + 1)) (take 3 results)
               = map (\<lambda>i. ?el (results ! i) (i + 1)) [0..<min 3 (length results)]"
    by (rule map_indexed_take)
  have rest: "map_indexed (\<lambda>result index. ?el result (index + 4)) (drop 3 results)
               = map (\<lambda>i. ?el (results ! i) (i + 1)) [3..<length results]"
    using map_indexed_drop [of "\<lambda>x i. ?el x (i + 1)" 3 results] by (simp add: add.commute)
  have card: "highlighted (JobCard result (i + 1)) = (i < 3)"
    "rank_badge (JobCard result (i + 1)) = (if i < 3 then Some (i + 1) else None)"
    by (auto simp: JobCard_def Let_def)
  show ?thesis
    unfolding ResultsList_def first3 rest using card by (simp add: render_element_def)
qed

section \<open>Properties of the submission component\<close>

text \<open>
  C8. The upload button empties \<open>resumeText\<close>, the paste button sets \<open>resumeFile\<close> to
  absent, and pressing either button \<open>n + 1\<close> times in a row leaves the state that
  pressing it once leaves.
\<close>

theorem mode_switches_idempotent:
  "resumeText (formData (clickUploadFile st)) = []
   \<and> resumeFile (formData (clickPasteText st)) = None
   \<and> (clickUploadFile ^^ Suc n) st = clickUploadFile st
   \<and> (clickPasteText ^^ Suc n) st = clickPasteText st"
proof -
  have u: "clickUploadFile (clickUploadFile s) = clickUploadFile s" for s
    by (simp add: clickUploadFile_def)
  have p: "clickPasteText (clickPasteText s) = clickPasteText s" for s
    by (simp add: clickPasteText_def)
  have "(clickUploadFile ^^ Suc n) st = clickUploadFile st"
    by (induction n) (simp_all add: u)
  moreover have "(clickPasteText ^^ Suc n) st = clickPasteText st"
    by (induction n) (simp_all add: p)
  ultimately show ?thesis
    by (simp add: clickUploadFile_def clickPasteText_def)
qed

subsection \<open>What the handlers keep\<close>

lemma handleSubmit_frame:
  "formData (fst (handleSubmit pl parseURL st)) = formData st
   \<and> inputMode (fst (handleSubmit pl parseURL st)) = inputMode st"
  by (simp add: handleSubmit_def validateForm_def Let_def split: prod.splits option.splits)

lemma handle_valid_file:
  "resumeFile (formData st) \<noteq> Some f \<Longrightarrow> resumeFile (formData (handle ev st)) = Some f
     \<Longrightarrow> file_type f \<in> set validTypes"
  by (cases ev)
     (auto simp: clickPasteText_def clickUploadFile_def changeResumeText_def
        changeDesiredJobDescription_def changeCompanyJobsUrl_def handleFileChange_def
        handleSubmit_frame split: option.splits if_splits)

text \<open>
  The invariant of the form: in paste mode no file is held, in upload mode no text is
  held, and a file that is held has an accepted content type.
\<close>

lemma reachable_invariant:
  "reachable st \<Longrightarrow>
     (inputMode st = paste \<longrightarrow> resumeFile (formData st) = None)
     \<and> (inputMode st = upload \<longrightarrow> resumeText (formData st) = [])
     \<and> (\<forall>f. resumeFile (formData st) = Some f \<longrightarrow> file_type f \<in> set validTypes)"
proof (induction rule: reachable.induct)
  case initial
  show ?case by (simp add: initial_state_def)
next
  case (step st ev)
  have mode: "(inputMode (handle ev st) = paste \<longrightarrow> resumeFile (formData (handle ev st)) = None)
     \<and> (inputMode (handle ev st) = upload \<longrightarrow> resumeText (formData (handle ev st)) = [])"
    using step.IH step.hyps(2)
    by (cases ev)
       (auto simp: clickPasteText_def clickUploadFile_def changeResumeText_def
          changeDesiredJobDescription_def changeCompanyJobsUrl_def handleFileChange_def
          handleSubmit_frame split: option.splits if_splits)
  have "file_type f \<in> set validTypes" if "resumeFile (formData (handle ev st)) = Some f" for f
    using step.IH that handle_valid_file [of st f ev] by blast
  with mode show ?case by blast
qed

lemma reachable_run: "reachable st \<Longrightarrow> reachable (run evs st)"
  by (induction evs arbitrary: st) (auto intro: reachable.step)

lemma sample_run_reachable: "reachable (run evs initial_state)"
  by (rule reachable_run [OF reachable.initial])

subsection \<open>File selection\<close>

text \<open>
  C7. Selecting a file whose declared content type is neither the PDF nor the DOCX type
  sets the resume error and leaves \<open>formData\<close> (all four fields) and the input mode as
  they were; and in every reachable state a file held in \<open>resumeFile\<close> has one of the
  two accepted types.
\<close>

theorem disallowed_file_rejected:
  "(file_type file \<noteq> ''application/pdf''
      \<and> file_type file \<noteq> ''application/vnd.openxmlformats-officedocument.wordprocessingml.document''
    \<longrightarrow> resume_error (errors (handleFileChange (Some file) st)) = Some ''Please upload a PDF or DOCX file''
        \<and> formData (handleFileChange (Some file) st) = formData st
        \<and> inputMode (handleFileChange (Some file) st) = inputMode st)
   \<and> (reachable st \<and> resumeFile (formData st) = Some f
    \<longrightarrow> file_type f = ''application/pdf''
        \<or> file_type f = ''application/vnd.openxmlformats-officedocument.wordprocessingml.document'')"
proof -
  have "file_type f = ''application/pdf''
        \<or> file_type f = ''application/vnd.openxmlformats-officedocument.wordprocessingml.document''"
    if "reachable st" "resumeFile (formData st) = Some f"
    using reachable_invariant [OF that(1)] that(2) by (simp add: validTypes_def)
  then show ?thesis
    by (simp add: handleFileChange_def validTypes_def)
qed

text \<open>
  C7 at a concrete input: after a PDF was selected in upload mode, selecting a PNG is
  refused and the PDF stays.
\<close>

theorem disallowed_file_rejected_witness:
  "file_type sample_png \<noteq> ''application/pdf''
   \<and> file_type sample_png \<noteq> ''application/vnd.openxmlformats-officedocument.wordprocessingml.document''
   \<and> reachable (run [ClickUploadFile, ChangeFile (Some sample_pdf)] initial_state)
   \<and> resumeFile (formData (run [ClickUploadFile, ChangeFile (Some sample_pdf)] initial_state)) = Some sample_pdf
   \<and> resume_error (errors (handleFileChange (Some sample_png)
        (run [ClickUploadFile, ChangeFile (Some sample_pdf)] initial_state)))
       = Some ''Please upload a PDF or DOCX file''
   \<and> formData (handleFileChange (Some sample_png)
        (run [ClickUploadFile, ChangeFile (Some sample_pdf)] initial_state))
       = formData (run [ClickUploadFile, ChangeFile (Some sample_pdf)] initial_state)
   \<and> file_type sample_pdf = ''application/pdf''"
proof -
  let ?st = "run [ClickUploadFile, ChangeFile (Some sample_pdf)] initial_state"
  have r: "reachable ?st" by (rule sample_run_reachable)
  have png: "file_type sample_png \<noteq> ''application/pdf''"
    "file_type sample_png \<noteq> ''application/vnd.openxmlformats-officedocument.wordprocessingml.document''"
    by (simp_all add: sample_png_def)
  have pdf: "resumeFile (formData ?st) = Some sample_pdf" by code_simp
  have ty: "file_type sample_pdf = ''application/pdf''" by (simp add: sample_pdf_def)
  show ?thesis
    using disallowed_file_rejected [of sample_png ?st sample_pdf] r png pdf ty by blast
qed

subsection \<open>One resume input at a time\<close>

text \<open>
  C6. In every state reachable from the initial state by the handlers the render offers,
  \<open>resumeText\<close> and \<open>resumeFile\<close> are not both supplied, and if \<open>validateForm\<close> passes in
  that state then exactly one of them is supplied.
\<close>

theorem resume_exclusive:
  "reachable st \<Longrightarrow>
     \<not> (text_supplied (formData st) \<and> file_supplied (formData st))
     \<and> (snd (validateForm parseURL st)
          \<longrightarrow> text_supplied (formData st) \<noteq> file_supplied (formData st))"
proof -
  assume r: "reachable st"
  from reachable_invariant [OF r]
  have excl: "\<not> (text_supplied (formData st) \<and> file_supplied (formData st))"
    by (cases "inputMode st") (auto simp: text_supplied_def file_supplied_def)
  have "text_supplied (formData st) \<or> file_supplied (formData st)"
    if "snd (validateForm parseURL st)"
    using that
    by (auto simp: validateForm_def Let_def has_no_keys_def newErrors_def check_resume_def
          text_supplied_def file_supplied_def split: if_splits)
  with excl show ?thesis by blast
qed

text \<open>
  C6 at a concrete input: a file is selected, the mode is switched back to paste, and
  the form is filled in; the state is reachable, validation passes, and only the text
  is supplied.
\<close>

theorem resume_exclusive_witness:
  "reachable (run [ClickUploadFile, ChangeFile (Some sample_pdf), ClickPasteText,
                   ChangeResumeText ''resume'', ChangeDesiredJobDescription ''data analyst'',
                   ChangeCompanyJobsUrl ''https://boards.greenhouse.io/acme''] initial_state)
   \<and> snd (validateForm acme_parser
        (run [ClickUploadFile, ChangeFile (Some sample_pdf), ClickPasteText,
              ChangeResumeText ''resume'', ChangeDesiredJobDescription ''data analyst'',
              ChangeCompanyJobsUrl ''https://boards.greenhouse.io/acme''] initial_state))
   \<and> text_supplied (formData
        (run [ClickUploadFile, ChangeFile (Some sample_pdf), ClickPasteText,
              ChangeResumeText ''resume'', ChangeDesiredJobDescription ''data analyst'',
              ChangeCompanyJobsUrl ''https://boards.greenhouse.io/acme''] initial_state))
   \<and> \<not> file_supplied (formData
        (run [ClickUploadFile, ChangeFile (Some sample_pdf), ClickPasteText,
              ChangeResumeText ''resume'', ChangeDesiredJobDescription ''data analyst'',
              ChangeCompanyJobsUrl ''https://boards.greenhouse.io/acme''] initial_state))"
proof -
  let ?st = "run [ClickUploadFile, ChangeFile (Some sample_pdf), ClickPasteText,
                   ChangeResumeText ''resume'', ChangeDesiredJobDescription ''data analyst'',
                   ChangeCompanyJobsUrl ''https://boards.greenhouse.io/acme''] initial_state"
  have r: "reachable ?st" by (rule sample_run_reachable)
  have v: "snd (validateForm acme_parser ?st)" by code_simp
  have t: "text_supplied (formData ?st)" by code_simp
  show ?thesis
    using resume_exclusive [OF r, of acme_parser] r v t by blast
qed

subsection \<open>Validation\<close>

text \<open>
  C5. \<open>validateForm\<close> attaches an error to \<open>companyJobsUrl\<close> exactly when the string is
  empty after trimming, or the URL parser rejects it, or it parses to a URL whose
  hostname contains none of \<open>greenhouse.io\<close>, \<open>lever.co\<close>, \<open>myworkdayjobs.com\<close>; a string
  (not blank) that parses to a URL whose hostname contains one of the three gets no
  error. The URL parser is any function.
\<close>

theorem companyJobsUrl_error_iff:
  "(companyJobsUrl_error (errors (fst (validateForm parseURL st))) \<noteq> None)
     = (trim (companyJobsUrl (formData st)) = []
        \<or> parseURL (companyJobsUrl (formData st)) = None
        \<or> (\<exists>url. parseURL (companyJobsUrl (formData st)) = Some url
              \<and> \<not> includes_str (hostname url) ''greenhouse.io''
              \<and> \<not> includes_str (hostname url) ''lever.co''
              \<and> \<not> includes_str (hostname url) ''myworkdayjobs.com''))
   \<and> (trim (companyJobsUrl (formData st)) \<noteq> []
        \<and> parseURL (companyJobsUrl (formData st)) = Some parsed
        \<and> (includes_str (hostname parsed) ''greenhouse.io''
            \<or> includes_str (hostname parsed) ''lever.co''
            \<or> includes_str (hostname parsed) ''myworkdayjobs.com'')
      \<longrightarrow> companyJobsUrl_error (errors (fst (validateForm parseURL st))) = None)"
  by (auto simp: validateForm_def Let_def newErrors_def check_companyJobsUrl_def isSupported_def
        split: option.splits)

lemma acme_trim: "trim (companyJobsUrl (formData (acme_form ''resume''))) \<noteq> []"
  by code_simp

lemma acme_host: "includes_str ''boards.greenhouse.io'' ''greenhouse.io''"
  by code_simp

text \<open>C5 at a concrete input: a Greenhouse board address gets no error.\<close>

theorem companyJobsUrl_error_iff_witness:
  "trim (companyJobsUrl (formData (acme_form ''resume''))) \<noteq> []
   \<and> acme_parser (companyJobsUrl (formData (acme_form ''resume''))) = Some \<lparr>hostname = ''boards.greenhouse.io''\<rparr>
   \<and> includes_str ''boards.greenhouse.io'' ''greenhouse.io''
   \<and> companyJobsUrl_error (errors (fst (validateForm acme_parser (acme_form ''resume'')))) = None"
proof -
  have p: "acme_parser (companyJobsUrl (formData (acme_form ''resume''))) = Some \<lparr>hostname = ''boards.greenhouse.io''\<rparr>"
    by (simp add: acme_parser_def acme_form_def)
  show ?thesis
    using companyJobsUrl_error_iff [of acme_parser "acme_form ''resume''" "\<lparr>hostname = ''boards.greenhouse.io''\<rparr>"]
      acme_trim acme_host p
    by simp
qed

text \<open>
  C10. When \<open>resumeText\<close> is not empty but consists of white space only and no file is
  held, \<open>validateForm\<close> reports no resume error, whereas the same string in
  \<open>desiredJobDescription\<close> is reported; and if the two other fields pass, the submission
  goes on and the body handed to \<open>fetch\<close> carries that white space as \<open>resume_text\<close> and
  no \<open>resume_file_base64\<close>.
\<close>

theorem whitespace_resume_accepted:
  "resumeText (formData st) \<noteq> [] \<Longrightarrow> trim (resumeText (formData st)) = []
     \<Longrightarrow> resumeFile (formData st) = None \<Longrightarrow>
   resume_error (errors (fst (validateForm parseURL st))) = None
   \<and> desiredJobDescription_error
        (errors (fst (validateForm parseURL
           (changeDesiredJobDescription (resumeText (formData st)) st)))) \<noteq> None
   \<and> (desiredJobDescription_error (errors (fst (validateForm parseURL st))) = None
        \<and> companyJobsUrl_error (errors (fst (validateForm parseURL st))) = None
      \<longrightarrow> sent (snd (handleSubmit pl parseURL st))
            = Some \<lparr>desired_job_description = desiredJobDescription (formData st),
                    company_jobs_url = companyJobsUrl (formData st),
                    resume_file_base64 = None,
                    resume_text = Some (resumeText (formData st))\<rparr>)"
  by (auto simp: validateForm_def Let_def newErrors_def check_resume_def has_no_keys_def
        check_desiredJobDescription_def changeDesiredJobDescription_def
        handleSubmit_def try_block_def requestBody_def no_effects_def
        split: sum.splits prod.splits)

lemma blank_form_valid:
  "desiredJobDescription_error (errors (fst (validateForm acme_parser (acme_form [CHR '' '', CHR 0x09])))) = None
   \<and> companyJobsUrl_error (errors (fst (validateForm acme_parser (acme_form [CHR '' '', CHR 0x09])))) = None
   \<and> trim (resumeText (formData (acme_form [CHR '' '', CHR 0x09]))) = []"
  by code_simp

text \<open>
  C10 at a concrete input: a resume of a space and a tab, in a form that is otherwise
  valid, is sent as it is.
\<close>

theorem whitespace_resume_accepted_witness:
  "resume_error (errors (fst (validateForm acme_parser (acme_form [CHR '' '', CHR 0x09])))) = None
   \<and> sent (snd (handleSubmit (answering \<lparr>ok = True, json_body = Inr (JObj [(''results'', JArr [])])\<rparr>)
              acme_parser (acme_form [CHR '' '', CHR 0x09])))
       = Some \<lparr>desired_job_description = ''data analyst'',
               company_jobs_url = ''https://boards.greenhouse.io/acme'',
               resume_file_base64 = None,
               resume_text = Some [CHR '' '', CHR 0x09]\<rparr>"
proof -
  have f: "resumeText (formData (acme_form [CHR '' '', CHR 0x09])) = [CHR '' '', CHR 0x09]"
    "resumeFile (formData (acme_form [CHR '' '', CHR 0x09])) = None"
    "desiredJobDescription (formData (acme_form [CHR '' '', CHR 0x09])) = ''data analyst''"
    "companyJobsUrl (formData (acme_form [CHR '' '', CHR 0x09])) = ''https://boards.greenhouse.io/acme''"
    by (simp_all add: acme_form_def)
  show ?thesis
    using whitespace_resume_accepted [of "acme_form [CHR '' '', CHR 0x09]" acme_parser
        "answering \<lparr>ok = True, json_body = Inr (JObj [(''results'', JArr [])])\<rparr>"]
      blank_form_valid f
    by simp
qed

subsection \<open>A response that is not a success\<close>

lemma handleSubmit_non_success:
  assumes "snd (validateForm parseURL st)"
    and "requestBody pl (formData st) = Inr body"
    and "fetch pl body = Inr response"
    and "\<not> ok response"
  shows "fst (handleSubmit pl parseURL st)
           = st\<lparr>errors := no_errors\<lparr>submit_error :=
                   Some (catch_message
                     (case json_body response of
                        Inl e \<Rightarrow> e
                      | Inr errorData \<Rightarrow> throw_for_errorData pl errorData))\<rparr>,
                 isLoading := False\<rparr>"
    and "snd (handleSubmit pl parseURL st) = no_effects\<lparr>sent := Some body\<rparr>"
  using assms
  by (auto simp: handleSubmit_def validateForm_def Let_def try_block_def handleResponse_def
        split: sum.splits prod.splits)

text \<open>
  C3, as the claim states it, fails: when the body of a non-success response cannot be
  parsed, \<open>response.json()\<close> rejects, and the message shown is the one of that error, not
  the generic \<open>Failed to get recommendations\<close>.
\<close>

theorem non_success_message_counterexample:
  "\<not> ok \<lparr>ok = False, json_body = Inl (Error ''Unexpected token < in JSON at position 0'')\<rparr>
   \<and> submit_error (errors (fst (handleSubmit
        (answering \<lparr>ok = False, json_body = Inl (Error ''Unexpected token < in JSON at position 0'')\<rparr>)
        acme_parser (acme_form ''resume''))))
      = Some ''Unexpected token < in JSON at position 0''
   \<and> submit_error (errors (fst (handleSubmit
        (answering \<lparr>ok = False, json_body = Inl (Error ''Unexpected token < in JSON at position 0'')\<rparr>)
        acme_parser (acme_form ''resume''))))
      \<noteq> Some ''Failed to get recommendations''"
  by code_simp

text \<open>
  C3, amended. For every non-success response to a submission nothing is stored and no
  navigation happens, \<open>formData\<close> and the input mode are as before and the form is not
  loading, so it can be submitted again; \<open>errors.submit\<close> is set to a message, and the
  error box shows it unless it is the empty string. The message is: the string
  \<open>detail.message\<close> when the body parses to an object that has one and it is not empty;
  the generic \<open>Failed to get recommendations\<close> when the body parses to a value other
  than \<open>null\<close> in which \<open>detail.message\<close> is absent or falsy; the platform's conversion
  of \<open>detail.message\<close> to a string when it is truthy and not a string; the message of
  the error that \<open>response.json()\<close> rejects with when the body cannot be parsed (the generic
  \<open>An error occurred. Please try again.\<close> when it rejects with something that is not
  an error); the message of the \<open>TypeError\<close> of reading \<open>detail\<close> of \<open>null\<close> when the
  body is \<open>null\<close>.
\<close>

theorem non_success_message:
  assumes "snd (validateForm parseURL st)"
    and "requestBody pl (formData st) = Inr body"
    and "fetch pl body = Inr response"
    and "\<not> ok response"
  shows "formData (fst (handleSubmit pl parseURL st)) = formData st
     \<and> inputMode (fst (handleSubmit pl parseURL st)) = inputMode st
     \<and> \<not> isLoading (fst (handleSubmit pl parseURL st))
     \<and> \<not> navigated (snd (handleSubmit pl parseURL st))
     \<and> persisted (snd (handleSubmit pl parseURL st)) = None
     \<and> (\<exists>message. submit_error (errors (fst (handleSubmit pl parseURL st))) = Some message
           \<and> submit_error_box (fst (handleSubmit pl parseURL st))
               = (if message = [] then None else Some message))
     \<and> (\<forall>kvs dkvs m.
           json_body response = Inr (JObj kvs) \<and> map_of kvs ''detail'' = Some (JObj dkvs)
           \<and> map_of dkvs ''message'' = Some (JStr m) \<and> m \<noteq> []
           \<longrightarrow> submit_error (errors (fst (handleSubmit pl parseURL st))) = Some m
               \<and> submit_error_box (fst (handleSubmit pl parseURL st)) = Some m)
     \<and> (\<forall>errorData.
           json_body response = Inr errorData \<and> errorData \<noteq> JNull
           \<and> \<not> truthy (optional_message (property errorData ''detail''))
           \<longrightarrow> submit_error (errors (fst (handleSubmit pl parseURL st)))
                 = Some ''Failed to get recommendations''
               \<and> submit_error_box (fst (handleSubmit pl parseURL st))
                 = Some ''Failed to get recommendations'')
     \<and> (\<forall>errorData v.
           json_body response = Inr errorData \<and> errorData \<noteq> JNull
           \<and> optional_message (property errorData ''detail'') = Some v
           \<and> truthy (Some v) \<and> (\<forall>s. v \<noteq> JStr s)
           \<longrightarrow> submit_error (errors (fst (handleSubmit pl parseURL st)))
                 = Some (ToString pl v))
     \<and> (\<forall>m. json_body response = Inl (Error m)
           \<longrightarrow> submit_error (errors (fst (handleSubmit pl parseURL st))) = Some m)
     \<and> (json_body response = Inl NotAnError
           \<longrightarrow> submit_error (errors (fst (handleSubmit pl parseURL st)))
                 = Some ''An error occurred. Please try again.'')
     \<and> (json_body response = Inr JNull
           \<longrightarrow> submit_error (errors (fst (handleSubmit pl parseURL st)))
                 = Some (nullPropertyMessage pl ''detail''))"
proof -
  let ?st' = "fst (handleSubmit pl parseURL st)"
  note hs = handleSubmit_non_success [OF assms]
  have frame: "formData ?st' = formData st" "inputMode ?st' = inputMode st" "\<not> isLoading ?st'"
    "\<not> navigated (snd (handleSubmit pl parseURL st))"
    "persisted (snd (handleSubmit pl parseURL st)) = None"
    unfolding hs by (simp_all add: no_effects_def)
  have box: "\<exists>message. submit_error (errors ?st') = Some message
               \<and> submit_error_box ?st' = (if message = [] then None else Some message)"
    unfolding hs by (simp add: submit_error_box_def)
  have str: "submit_error (errors ?st') = Some m \<and> submit_error_box ?st' = Some m"
    if "json_body response = Inr (JObj kvs)" "map_of kvs ''detail'' = Some (JObj dkvs)"
       "map_of dkvs ''message'' = Some (JStr m)" "m \<noteq> []" for kvs dkvs m
    unfolding hs using that
    by (simp add: submit_error_box_def throw_for_errorData_def optional_message_def
          new_Error_def catch_message_def Let_def)
  have fallback: "submit_error (errors ?st') = Some ''Failed to get recommendations''
                  \<and> submit_error_box ?st' = Some ''Failed to get recommendations''"
    if "json_body response = Inr errorData" "errorData \<noteq> JNull"
       "\<not> truthy (optional_message (property errorData ''detail''))" for errorData
    unfolding hs using that
    by (simp add: submit_error_box_def throw_for_errorData_def catch_message_def Let_def)
  have conv: "submit_error (errors ?st') = Some (ToString pl v)"
    if "json_body response = Inr errorData" "errorData \<noteq> JNull"
       "optional_message (property errorData ''detail'') = Some v"
       "truthy (Some v)" "\<forall>s. v \<noteq> JStr s" for errorData v
    unfolding hs using that
    by (cases v) (simp_all add: throw_for_errorData_def new_Error_def catch_message_def Let_def)
  have rejected: "submit_error (errors ?st') = Some m"
    if "json_body response = Inl (Error m)" for m
    unfolding hs using that by (simp add: catch_message_def)
  have other: "submit_error (errors ?st') = Some ''An error occurred. Please try again.''"
    if "json_body response = Inl NotAnError"
    unfolding hs using that by (simp add: catch_message_def)
  have null: "submit_error (errors ?st') = Some (nullPropertyMessage pl ''detail'')"
    if "json_body response = Inr JNull"
    unfolding hs using that by (simp add: throw_for_errorData_def catch_message_def)
  show ?thesis
    using frame box str fallback conv rejected other null by blast
qed

text \<open>
  C3 amended, at a concrete input: the backend answers with a failure whose
  \<open>detail.message\<close> is \<open>Board not supported\<close>, and the error box shows it.
\<close>

theorem non_success_message_witness:
  "snd (validateForm acme_parser (acme_form ''resume''))
   \<and> submit_error (errors (fst (handleSubmit
        (answering \<lparr>ok = False,
           json_body = Inr (JObj [(''detail'', JObj [(''message'', JStr ''Board not supported'')])])\<rparr>)
        acme_parser (acme_form ''resume''))))
      = Some ''Board not supported''
   \<and> submit_error_box (fst (handleSubmit
        (answering \<lparr>ok = False,
           json_body = Inr (JObj [(''detail'', JObj [(''message'', JStr ''Board not supported'')])])\<rparr>)
        acme_parser (acme_form ''resume'')))
      = Some ''Board not supported''
   \<and> formData (fst (handleSubmit
        (answering \<lparr>ok = False,
           json_body = Inr (JObj [(''detail'', JObj [(''message'', JStr ''Board not supported'')])])\<rparr>)
        acme_parser (acme_form ''resume'')))
      = formData (acme_form ''resume'')"
proof -
  let ?response = "\<lparr>ok = False,
           json_body = Inr (JObj [(''detail'', JObj [(''message'', JStr ''Board not supported'')])])\<rparr>"
  let ?body = "\<lparr>desired_job_description = ''data analyst'',
       company_jobs_url = ''https://boards.greenhouse.io/acme'',
       resume_file_base64 = None, resume_text = Some ''resume''\<rparr>"
  have v: "snd (validateForm acme_parser (acme_form ''resume''))" by code_simp
  have b: "requestBody (answering ?response) (formData (acme_form ''resume'')) = Inr ?body"
    by (simp add: requestBody_def acme_form_def)
  have f: "fetch (answering ?response) ?body = Inr ?response"
    by (simp add: answering_def)
  have n: "\<not> ok ?response" by simp
  show ?thesis
    using non_success_message [OF v b f n] v by simp
qed

section \<open>Properties of the results page\<close>

text \<open>
  C2, as the claim states it, fails: the text \<open>{}\<close> is JSON but not an array of results;
  it is parsed to an empty object, which the page keeps as its results, and rendering
  raises a \<open>TypeError\<close> instead of showing the empty-state notice. The parser is given
  by a table of the texts used: it maps \<open>{}\<close> to the empty object and rejects
  \<open><html>\<close>, as \<open>JSON.parse\<close> does.
\<close>

theorem stored_results_counterexample:
  "loadResults (map_of [(''{}'', JObj [])]) (Some ''{}'') \<noteq> JArr []
   \<and> ResultsPage (map_of [(''{}'', JObj [])]) (Some ''{}'') = Inl TypeError
   \<and> ResultsPage (map_of [(''{}'', JObj [])]) (Some ''{}'') \<noteq> Inr NoResultsFound"
  by (simp add: ResultsPage_def loadResults_def ResultsPage_render_def ResultsList_untyped_def
        length_is_zero_def)

text \<open>
  C2, amended. When the slot is absent, holds the empty string, holds text that
  \<open>JSON.parse\<close> rejects, or holds the text of an empty array, the page takes the empty
  list as its results and renders the empty-state notice, without an error. Text that
  \<open>JSON.parse\<close> accepts is taken as parsed, whatever its structure.
\<close>

theorem stored_results_empty_state:
  "(stored = None \<or> stored = Some []
      \<or> (\<exists>text. stored = Some text
            \<and> (JSON_parse text = None \<or> JSON_parse text = Some (JArr [])))
    \<longrightarrow> loadResults JSON_parse stored = JArr []
        \<and> ResultsPage JSON_parse stored = Inr NoResultsFound)
   \<and> (\<forall>text v. stored = Some text \<and> text \<noteq> [] \<and> JSON_parse text = Some v
        \<longrightarrow> loadResults JSON_parse stored = v)"
proof -
  have render: "ResultsPage_render (JArr []) = Inr NoResultsFound"
    by (simp add: ResultsPage_render_def length_is_zero_def)
  have "loadResults JSON_parse stored = JArr []"
    if "stored = None \<or> stored = Some []
          \<or> (\<exists>text. stored = Some text
                \<and> (JSON_parse text = None \<or> JSON_parse text = Some (JArr [])))"
    using that by (auto simp: loadResults_def Let_def)
  moreover have "loadResults JSON_parse stored = v"
    if "stored = Some s \<and> s \<noteq> [] \<and> JSON_parse s = Some v" for s v
    using that by (simp add: loadResults_def Let_def)
  ultimately show ?thesis
    using render by (auto simp: ResultsPage_def)
qed

text \<open>
  C2 amended, at concrete inputs: a slot holding markup that is not JSON gives the
  empty-state notice, and a slot holding \<open>{}\<close> gives the parsed object as results.
\<close>

theorem stored_results_empty_state_witness:
  "map_of [(''{}'', JObj [])] ''<html>'' = None
   \<and> loadResults (map_of [(''{}'', JObj [])]) (Some ''<html>'') = JArr []
   \<and> ResultsPage (map_of [(''{}'', JObj [])]) (Some ''<html>'') = Inr NoResultsFound
   \<and> loadResults (map_of [(''{}'', JObj [])]) (Some ''{}'') = JObj []"
proof -
  have n: "map_of [(''{}'', JObj [])] ''<html>'' = None" by simp
  have s: "map_of [(''{}'', JObj [])] ''{}'' = Some (JObj [])" by simp
  show ?thesis
    using stored_results_empty_state [of "Some ''<html>''" "map_of [(''{}'', JObj [])]"]
      stored_results_empty_state [of "Some ''{}''" "map_of [(''{}'', JObj [])]"] n s
    by simp
qed

subsection \<open>Entries that are not results\<close>

text \<open>
  An array whose entry is not a record throws while the list component reads the key of
  its card; an entry with a \<open>job\<close> but no \<open>why_matches\<close> passes the list component and
  throws in its card; an entry with a \<open>job\<close> and two empty lists renders; an entry
  whose title is an object is refused as a child.
\<close>

lemma entry_without_job_throws:
  "ResultsPage_render (JArr [JNum 1]) = Inl TypeError"
  by code_simp

lemma entry_without_why_matches_throws:
  "ResultsPage_render (JArr [JObj [(''job'', JObj [])]])
     = Inr (ListOf [\<lparr>element_key = None, element_result = JObj [(''job'', JObj [])],
                      element_rank = 1\<rparr>] None)
   \<and> JobCard_untyped (\<lambda>v. False) (JObj [(''job'', JObj [])]) = Some TypeError"
  by code_simp

lemma entry_with_empty_lists_renders:
  "JobCard_untyped (\<lambda>v. False)
     (JObj [(''job'', JObj []), (''why_matches'', JArr []), (''gaps'', JArr [])]) = None"
  by code_simp

lemma entry_with_object_title_refused:
  "JobCard_untyped (\<lambda>v. False)
     (JObj [(''job'', JObj [(''title'', JObj [])]), (''why_matches'', JArr []), (''gaps'', JArr [])])
     = Some InvalidChild"
  by code_simp

end
